theory Spec2Isabelle
  imports Main "HOL-Library.Monad_Syntax"
begin

section \<open>Request validation middleware (validateRequest.ts)\<close>

text \<open>
  \<open>validationResult(req)\<close> of express-validator either throws or returns a result
  object. Of the result object the middleware reads \<open>isEmpty()\<close> and interpolates
  \<open>errors.array\<close> (the method itself, not its result) into the message, so the
  model keeps the text that interpolation yields.
\<close>

datatype 'a js_outcome = Threw | Returned 'a

record validation_result =
  isEmpty :: bool
  array :: string

datatype request_error =
    ValidationError string
  | UnauthorizedRequestError string
  | BadRequestError string

text \<open>
  The value of \<open>validate\<close> is the argument handed to \<open>next\<close>: \<open>None\<close> is the
  plain call \<open>next()\<close>. The \<open>try\<close> block is the \<open>Returned\<close> branch, the
  \<open>catch\<close> block the \<open>Threw\<close> branch. The calls of \<open>next\<close> and of the error
  constructors are taken to return normally, so \<open>validationResult\<close> is the only source
  of an exception in the \<open>try\<close> block.
\<close>

definition validate :: "validation_result js_outcome \<Rightarrow> request_error option" where
  "validate vr =
     (case vr of
        Returned errors \<Rightarrow>
          if \<not> isEmpty errors
          then Some (ValidationError
                 (''One or more of your paramters are invalid [error='' @ array errors @ '']''))
          else None
      | Threw \<Rightarrow>
          Some (UnauthorizedRequestError
                 ''Unauthenticated requests are not allowed. Try logging in''))"

section \<open>Router of the user-secret management API: data\<close>

text \<open>
  A request body arrives as a JSON value. Numbers are kept as integers: every schema
  below refuses a number wherever it may occur, so their value plays no part.
\<close>

datatype json =
    JString string
  | JNumber int
  | JBool bool
  | JNull
  | JArray "json list"
  | JObject "(string \<times> json) list"

text \<open>Reading a property of a body; \<open>None\<close> is JavaScript's \<open>undefined\<close>.\<close>

fun get_prop :: "json \<Rightarrow> string \<Rightarrow> json option" where
  "get_prop (JObject kvs) k = map_of kvs k"
| "get_prop _ k = None"

datatype credential_type = WEB_LOGIN | CREDIT_CARD | SECURE_NOTE

text \<open>\<open>new Date(s)\<close> for a string \<open>s\<close>; \<open>new Date()\<close> is a reading of the clock.\<close>

datatype jsdate = NewDate string

type_synonym timestamp = nat

text \<open>
  The body after the schema has parsed it (unknown keys are stripped, so these are all
  its keys). In the create route \<open>credentialType\<close> is a tag, in the update route an
  optional tag: the type parameter stands for either.
\<close>

record 'ct request_body =
  credentialType :: 'ct
  username :: "string option"
  password :: "string option"
  cardNumber :: "string option"
  expiryDate :: "string option"
  cvv :: "string option"
  title :: "string option"
  content :: "string option"
  organizationId :: string
  userId :: string

text \<open>\<open>req.permission\<close>, set by the authentication hook before the handler runs.\<close>

record permission =
  ptype :: string
  pid :: string
  authMethod :: string
  orgId :: string

text \<open>
  A request as a handler sees it: \<open>param\<close> is the one path parameter of the route
  (\<open>:id\<close> or \<open>:secretId\<close>), \<open>query_offset\<close> and \<open>query_limit\<close> the parsed query.
\<close>

record 'b request =
  permission :: permission
  param :: string
  query_offset :: nat
  query_limit :: nat
  body :: 'b

text \<open>
  The object \<open>newSecret\<close> of the create handler, and the stored row: \<open>newSecret\<close>
  has no \<open>deletedAt\<close> key, the stored row has the soft-delete marker of the data
  model. (\<open>secret_id\<close> is the key \<open>id\<close>.)
\<close>

record secret_data =
  secret_id :: string
  user_id :: string
  organization_id :: string
  type :: credential_type
  username :: "string option"
  password :: "string option"
  card_number :: "string option"
  expiry_date :: "jsdate option"
  cvv :: "string option"
  title :: "string option"
  content :: "string option"
  createdAt :: timestamp
  updatedAt :: timestamp

record user_secret = secret_data +
  deletedAt :: "timestamp option"

type_synonym db = "user_secret list"

text \<open>The object \<open>data\<close> of the update handler; \<open>None\<close> is \<open>undefined\<close>.\<close>

record update_data =
  type :: "credential_type option"
  username :: "string option"
  password :: "string option"
  card_number :: "string option"
  expiry_date :: "jsdate option"
  cvv :: "string option"
  title :: "string option"
  content :: "string option"
  updatedAt :: timestamp

text \<open>The argument objects of the service calls.\<close>

record list_args =
  actor :: string
  actorId :: string
  actorAuthMethod :: string
  actorOrgId :: string
  offset :: nat
  limit :: nat

record delete_args =
  actor :: string
  actorId :: string
  orgId :: string
  actorAuthMethod :: string
  actorOrgId :: string
  secretId :: string

datatype service_error = RequestValidationError | NotFoundError | OtherError string

datatype reply_value =
    RString string
  | RNumber nat
  | RSecret user_secret
  | RSecrets "user_secret list"

text \<open>What a handler sends: a status and the keys of the object literal it sends.\<close>

record reply =
  status :: nat
  payload :: "(string \<times> reply_value) list"

text \<open>
  \<open>server.services.userSecrets\<close>: the service is not part of the router, each handler
  reaches it through the server object, so the handlers take it as a parameter. A call
  may reject (\<open>Inl\<close>) or resolve (\<open>Inr\<close>) and leaves a database state behind. The
  delete operation also gets the reading of the clock it stamps with.
\<close>

record user_secrets_service =
  getAllUserSecrets ::
    "list_args \<Rightarrow> db \<Rightarrow> (service_error + user_secret list \<times> nat) \<times> db"
  createUserSecret ::
    "secret_data \<Rightarrow> db \<Rightarrow> (service_error + unit) \<times> db"
  updateUserSecret ::
    "string \<Rightarrow> update_data \<Rightarrow> db \<Rightarrow> (service_error + unit) \<times> db"
  deleteUserSecretById ::
    "delete_args \<Rightarrow> timestamp \<Rightarrow> db \<Rightarrow> (service_error + user_secret option) \<times> db"

section \<open>Router: body schemas\<close>

text \<open>\<open>z.string()\<close>: the value must be a string.\<close>

definition z_string :: "json option \<Rightarrow> string option" where
  "z_string v = (case v of Some (JString s) \<Rightarrow> Some s | _ \<Rightarrow> None)"

text \<open>
  \<open>z.string().optional()\<close>: \<open>undefined\<close> is accepted and stays \<open>undefined\<close>; the outer
  \<open>None\<close> is the refusal.
\<close>

definition z_string_optional :: "json option \<Rightarrow> string option option" where
  "z_string_optional v =
     (case v of None \<Rightarrow> Some None | Some (JString s) \<Rightarrow> Some (Some s) | _ \<Rightarrow> None)"

text \<open>\<open>z.enum(["WEB_LOGIN", "CREDIT_CARD", "SECURE_NOTE"])\<close>.\<close>

definition z_credential_enum :: "json option \<Rightarrow> credential_type option" where
  "z_credential_enum v =
     (case v of
        Some (JString s) \<Rightarrow>
          if s = ''WEB_LOGIN'' then Some WEB_LOGIN
          else if s = ''CREDIT_CARD'' then Some CREDIT_CARD
          else if s = ''SECURE_NOTE'' then Some SECURE_NOTE
          else None
      | _ \<Rightarrow> None)"

definition z_credential_enum_optional :: "json option \<Rightarrow> credential_type option option" where
  "z_credential_enum_optional v =
     (case v of None \<Rightarrow> Some None | Some _ \<Rightarrow> map_option Some (z_credential_enum v))"

text \<open>
  \<open>z.object({...})\<close> over the ten keys: the body must be an object and every key must
  pass its own schema. The schema of \<open>credentialType\<close> is the only difference between
  the two routes, so it is the parameter \<open>ct\<close>.
\<close>

definition is_object :: "json \<Rightarrow> bool" where
  "is_object j = (case j of JObject _ \<Rightarrow> True | _ \<Rightarrow> False)"

definition body_schema ::
  "(json option \<Rightarrow> 'ct option) \<Rightarrow> json \<Rightarrow> 'ct request_body option" where
  "body_schema ct j =
     (if \<not> is_object j then None
      else do {
        c \<leftarrow> ct (get_prop j ''credentialType'');
        un \<leftarrow> z_string_optional (get_prop j ''username'');
        pw \<leftarrow> z_string_optional (get_prop j ''password'');
        cn \<leftarrow> z_string_optional (get_prop j ''cardNumber'');
        ed \<leftarrow> z_string_optional (get_prop j ''expiryDate'');
        cv \<leftarrow> z_string_optional (get_prop j ''cvv'');
        ti \<leftarrow> z_string_optional (get_prop j ''title'');
        co \<leftarrow> z_string_optional (get_prop j ''content'');
        org \<leftarrow> z_string (get_prop j ''organizationId'');
        usr \<leftarrow> z_string (get_prop j ''userId'');
        Some \<lparr>credentialType = c, request_body.username = un,
              request_body.password = pw, cardNumber = cn, expiryDate = ed,
              request_body.cvv = cv, request_body.title = ti,
              request_body.content = co, organizationId = org, userId = usr\<rparr>
      })"

text \<open>The body schema of \<open>POST /create\<close> (lines 51 to 62).\<close>

definition create_body_schema :: "json \<Rightarrow> credential_type request_body option" where
  "create_body_schema = body_schema z_credential_enum"

text \<open>The body schema of \<open>PUT /update/:id\<close> (lines 101 to 112).\<close>

definition update_body_schema :: "json \<Rightarrow> credential_type option request_body option" where
  "update_body_schema = body_schema z_credential_enum_optional"

section \<open>Router: handlers\<close>

text \<open>\<open>x || null\<close> on an optional string: \<open>undefined\<close> and the empty string are falsy.\<close>

definition or_null :: "string option \<Rightarrow> string option" where
  "or_null x = (case x of None \<Rightarrow> None | Some s \<Rightarrow> if s = [] then None else Some s)"

text \<open>\<open>x ? new Date(x) : alt\<close>.\<close>

definition date_or :: "string option \<Rightarrow> jsdate option \<Rightarrow> jsdate option" where
  "date_or x alt = (case x of None \<Rightarrow> alt | Some s \<Rightarrow> if s = [] then alt else Some (NewDate s))"

text \<open>
  The object \<open>newSecret\<close> (lines 72 to 86). \<open>uuid\<close> is the result of \<open>uuidv4()\<close>,
  \<open>now_c\<close> and \<open>now_u\<close> are the two readings of the clock.
\<close>

definition newSecret ::
  "string \<Rightarrow> timestamp \<Rightarrow> timestamp \<Rightarrow> credential_type request_body \<Rightarrow> secret_data" where
  "newSecret uuid now_c now_u b =
     \<lparr>secret_id = uuid,
      user_id = userId b,
      organization_id = organizationId b,
      secret_data.type = credentialType b,
      secret_data.username = or_null (request_body.username b),
      secret_data.password = or_null (request_body.password b),
      secret_data.card_number = or_null (cardNumber b),
      secret_data.expiry_date = date_or (expiryDate b) None,
      secret_data.cvv = or_null (request_body.cvv b),
      secret_data.title = or_null (request_body.title b),
      secret_data.content = or_null (request_body.content b),
      createdAt = now_c,
      secret_data.updatedAt = now_u\<rparr>"

text \<open>
  The object \<open>data\<close> (lines 125 to 135). The fallback \<open>req.body.expiry_date\<close> reads
  a key the parsed body does not have, so it is \<open>undefined\<close>.
\<close>

definition update_data_of ::
  "timestamp \<Rightarrow> credential_type option request_body \<Rightarrow> update_data" where
  "update_data_of now b =
     \<lparr>update_data.type = credentialType b,
      update_data.username = request_body.username b,
      update_data.password = request_body.password b,
      update_data.card_number = cardNumber b,
      update_data.expiry_date = date_or (expiryDate b) None,
      update_data.cvv = request_body.cvv b,
      update_data.title = request_body.title b,
      update_data.content = request_body.content b,
      update_data.updatedAt = now\<rparr>"

type_synonym outcome = "(service_error + reply) \<times> db"

text \<open>\<open>GET /\<close> (lines 29 to 42). A rejected service call rejects the handler.\<close>

definition get_handler :: "user_secrets_service \<Rightarrow> 'b request \<Rightarrow> db \<Rightarrow> outcome" where
  "get_handler svc req d =
     (case getAllUserSecrets svc
             \<lparr>list_args.actor = ptype (permission req),
              list_args.actorId = pid (permission req),
              list_args.actorAuthMethod = authMethod (permission req),
              list_args.actorOrgId = permission.orgId (permission req),
              offset = query_offset req,
              limit = query_limit req\<rparr> d of
        (Inl e, d') \<Rightarrow> (Inl e, d')
      | (Inr (secrets, totalCount), d') \<Rightarrow>
          (Inr \<lparr>status = 200,
                payload = [(''secrets'', RSecrets secrets),
                           (''totalCount'', RNumber totalCount)]\<rparr>, d'))"

text \<open>\<open>POST /create\<close> (lines 71 to 91).\<close>

definition created_reply :: reply where
  "created_reply =
     \<lparr>status = 200, payload = [(''message'', RString ''Credential created successfully'')]\<rparr>"

definition post_create_handler ::
  "user_secrets_service \<Rightarrow> string \<Rightarrow> timestamp \<Rightarrow> timestamp \<Rightarrow>
   credential_type request_body request \<Rightarrow> db \<Rightarrow> outcome" where
  "post_create_handler svc uuid now_c now_u req d =
     (case createUserSecret svc (newSecret uuid now_c now_u (body req)) d of
        (Inl e, d') \<Rightarrow> (Inl e, d')
      | (Inr _, d') \<Rightarrow> (Inr created_reply, d'))"

text \<open>
  \<open>PUT /update/:id\<close> (lines 121 to 143); \<open>sid\<close> is the handler's local
  \<open>secretId\<close>. Nothing of \<open>req.permission\<close> is read or handed to the service.
\<close>

definition updated_reply :: "string \<Rightarrow> reply" where
  "updated_reply updatedSecretId =
     \<lparr>status = 200,
      payload = [(''message'', RString ''Credential updated successfully''),
                 (''updatedSecretId'', RString updatedSecretId)]\<rparr>"

definition put_update_handler ::
  "user_secrets_service \<Rightarrow> timestamp \<Rightarrow>
   credential_type option request_body request \<Rightarrow> db \<Rightarrow> outcome" where
  "put_update_handler svc now req d =
     (let sid = param req;
          data = update_data_of now (body req)
      in case updateUserSecret svc sid data d of
           (Inl e, d') \<Rightarrow> (Inl e, d')
         | (Inr _, d') \<Rightarrow> (Inr (updated_reply sid), d'))"

text \<open>
  \<open>DELETE /:secretId\<close> (lines 165 to 186); \<open>now\<close> is the reading of the clock the
  service stamps the row with. First the argument object of the service call and the two
  replies of the handler.
\<close>

definition delete_args_of :: "'b request \<Rightarrow> delete_args" where
  "delete_args_of req =
     \<lparr>delete_args.actor = ptype (permission req),
      delete_args.actorId = pid (permission req),
      delete_args.orgId = permission.orgId (permission req),
      delete_args.actorAuthMethod = authMethod (permission req),
      delete_args.actorOrgId = permission.orgId (permission req),
      secretId = param req\<rparr>"

definition not_found_reply :: reply where
  "not_found_reply = \<lparr>status = 404, payload = [(''message'', RString ''Secret not found'')]\<rparr>"

definition deleted_reply :: "user_secret \<Rightarrow> reply" where
  "deleted_reply deletedSecret =
     \<lparr>status = 200,
      payload = [(''message'', RString ''Secret soft deleted successfully''),
                 (''deletedSecret'', RSecret deletedSecret)]\<rparr>"

definition delete_handler ::
  "user_secrets_service \<Rightarrow> timestamp \<Rightarrow> 'b request \<Rightarrow> db \<Rightarrow> outcome" where
  "delete_handler svc now req d =
     (case deleteUserSecretById svc (delete_args_of req) now d of
        (Inl e, d') \<Rightarrow> (Inl e, d')
      | (Inr None, d') \<Rightarrow> (Inr not_found_reply, d')
      | (Inr (Some deletedSecret), d') \<Rightarrow> (Inr (deleted_reply deletedSecret), d'))"

section \<open>Router: routes\<close>

text \<open>
  A route validates the body against its schema, and only a body that passes reaches the
  handler, as the parsed body. The requests are those the authentication hook has let
  through.
\<close>

definition with_body :: "'a request \<Rightarrow> 'b \<Rightarrow> 'b request" where
  "with_body req b =
     \<lparr>permission = permission req, param = param req,
      query_offset = query_offset req, query_limit = query_limit req, body = b\<rparr>"

definition post_create_route ::
  "user_secrets_service \<Rightarrow> string \<Rightarrow> timestamp \<Rightarrow> timestamp \<Rightarrow> json request \<Rightarrow> db \<Rightarrow> outcome" where
  "post_create_route svc uuid now_c now_u req d =
     (case create_body_schema (body req) of
        None \<Rightarrow> (Inl RequestValidationError, d)
      | Some b \<Rightarrow> post_create_handler svc uuid now_c now_u (with_body req b) d)"

definition put_update_route ::
  "user_secrets_service \<Rightarrow> timestamp \<Rightarrow> json request \<Rightarrow> db \<Rightarrow> outcome" where
  "put_update_route svc now req d =
     (case update_body_schema (body req) of
        None \<Rightarrow> (Inl RequestValidationError, d)
      | Some b \<Rightarrow> put_update_handler svc now (with_body req b) d)"

text \<open>
  Modelled from the spec: \<open>z.string().uuid()\<close> of the params schema of
  \<open>DELETE /:secretId\<close> (line 155). The library is not part of the router; the path
  parameter must be a well-formed unique identifier, five groups of 8, 4, 4, 4 and 12
  hexadecimal digits joined by hyphens. In the pattern, \<open>x\<close> stands for one such digit.
\<close>

definition is_hex :: "char \<Rightarrow> bool" where
  "is_hex c = (c \<in> set ''0123456789abcdefABCDEF'')"

fun matches :: "string \<Rightarrow> string \<Rightarrow> bool" where
  "matches [] [] = True"
| "matches (p # ps) (c # cs) = ((if p = CHR ''x'' then is_hex c else c = p) \<and> matches ps cs)"
| "matches _ _ = False"

definition z_uuid :: "string \<Rightarrow> bool" where
  "z_uuid s = matches ''xxxxxxxx-xxxx-xxxx-xxxx-xxxxxxxxxxxx'' s"

text \<open>
  The route \<open>DELETE /:secretId\<close>: a path parameter that fails the params schema is
  refused before the handler runs.
\<close>

definition delete_route ::
  "user_secrets_service \<Rightarrow> timestamp \<Rightarrow> 'b request \<Rightarrow> db \<Rightarrow> outcome" where
  "delete_route svc now req d =
     (if z_uuid (param req) then delete_handler svc now req d
      else (Inl RequestValidationError, d))"

text \<open>
  Modelled from the spec: the error handler of the server is not part of the router; the
  error taxonomy and the table of the API surface give the status of each error.
\<close>

definition http_status :: "service_error + reply \<Rightarrow> nat" where
  "http_status r =
     (case r of
        Inr rep \<Rightarrow> status rep
      | Inl RequestValidationError \<Rightarrow> 400
      | Inl NotFoundError \<Rightarrow> 404
      | Inl (OtherError _) \<Rightarrow> 500)"

section \<open>The service behind the router\<close>

text \<open>
  The Secret Repository and the Secret Management Service are not part of the router.
  They are modelled from the spec, the repository with its five capabilities
  (\<open>insert\<close>, \<open>findById\<close>, \<open>updatePartial\<close>, \<open>markDeleted\<close>, \<open>listActive\<close>),
  the service with the arguments the handlers call it with. The database is the list of
  rows in the order of insertion.
\<close>

text \<open>Modelled from the spec: a row is created active, its \<open>deletedAt\<close> is null.\<close>

definition stored_row :: "secret_data \<Rightarrow> user_secret" where
  "stored_row sd = secret_data.extend sd (user_secret.fields None)"

text \<open>Modelled from the spec: \<open>insert(entity)\<close> of the repository, one new row.\<close>

definition repo_insert :: "secret_data \<Rightarrow> db \<Rightarrow> db" where
  "repo_insert sd d = d @ [stored_row sd]"

text \<open>Modelled from the spec: \<open>findById(id, organizationScope)\<close> of the repository.\<close>

definition repo_findById :: "string \<Rightarrow> string \<Rightarrow> db \<Rightarrow> user_secret option" where
  "repo_findById i org d = find (\<lambda>s. secret_id s = i \<and> organization_id s = org) d"

text \<open>
  Modelled from the spec: the partial write of the repository. Only the fields that are
  present (not \<open>undefined\<close>) are written, the others are left as stored.
\<close>

definition write_fields :: "update_data \<Rightarrow> user_secret \<Rightarrow> user_secret" where
  "write_fields u s =
     s\<lparr>secret_data.type :=
         (case update_data.type u of None \<Rightarrow> secret_data.type s | Some t \<Rightarrow> t),
       secret_data.username :=
         (case update_data.username u of None \<Rightarrow> secret_data.username s | Some v \<Rightarrow> Some v),
       secret_data.password :=
         (case update_data.password u of None \<Rightarrow> secret_data.password s | Some v \<Rightarrow> Some v),
       secret_data.card_number :=
         (case update_data.card_number u of None \<Rightarrow> secret_data.card_number s
          | Some v \<Rightarrow> Some v),
       secret_data.expiry_date :=
         (case update_data.expiry_date u of None \<Rightarrow> secret_data.expiry_date s
          | Some v \<Rightarrow> Some v),
       secret_data.cvv :=
         (case update_data.cvv u of None \<Rightarrow> secret_data.cvv s | Some v \<Rightarrow> Some v),
       secret_data.title :=
         (case update_data.title u of None \<Rightarrow> secret_data.title s | Some v \<Rightarrow> Some v),
       secret_data.content :=
         (case update_data.content u of None \<Rightarrow> secret_data.content s | Some v \<Rightarrow> Some v),
       secret_data.updatedAt := update_data.updatedAt u\<rparr>"

text \<open>
  Modelled from the spec: the payload fields and the type each belongs to, as the data
  model lists them.
\<close>

datatype payload_field = Username | Password | CardNumber | ExpiryDate | Cvv | Title | Content

fun relevant :: "credential_type \<Rightarrow> payload_field \<Rightarrow> bool" where
  "relevant WEB_LOGIN f = (f = Username \<or> f = Password)"
| "relevant CREDIT_CARD f = (f = CardNumber \<or> f = ExpiryDate \<or> f = Cvv)"
| "relevant SECURE_NOTE f = (f = Title \<or> f = Content)"

text \<open>
  Modelled from the spec: the Credential Normalizer on a row. The fields relevant to the
  tag stay, all others are null.
\<close>

definition normalise :: "credential_type \<Rightarrow> user_secret \<Rightarrow> user_secret" where
  "normalise t s =
     s\<lparr>secret_data.username := (if relevant t Username then secret_data.username s else None),
       secret_data.password := (if relevant t Password then secret_data.password s else None),
       secret_data.card_number :=
         (if relevant t CardNumber then secret_data.card_number s else None),
       secret_data.expiry_date :=
         (if relevant t ExpiryDate then secret_data.expiry_date s else None),
       secret_data.cvv := (if relevant t Cvv then secret_data.cvv s else None),
       secret_data.title := (if relevant t Title then secret_data.title s else None),
       secret_data.content := (if relevant t Content then secret_data.content s else None)\<rparr>"

text \<open>
  Modelled from the spec: what an update does to the row. The present fields are
  written; when the update brings a type other than the stored one, the normalizer is
  applied again, so the fields of the previous type are cleared.
\<close>

definition update_row :: "update_data \<Rightarrow> user_secret \<Rightarrow> user_secret" where
  "update_row u s =
     (case update_data.type u of
        None \<Rightarrow> write_fields u s
      | Some t \<Rightarrow>
          if t = secret_data.type s then write_fields u s else normalise t (write_fields u s))"

text \<open>
  Modelled from the spec: \<open>updatePartial(id, fieldsToChange)\<close> of the repository; the
  change is given as what it does to the row.
\<close>

definition repo_updatePartial :: "string \<Rightarrow> (user_secret \<Rightarrow> user_secret) \<Rightarrow> db \<Rightarrow> db" where
  "repo_updatePartial i change d = map (\<lambda>r. if secret_id r = i then change r else r) d"

text \<open>
  Modelled from the spec: the mark of \<open>markDeleted\<close> on one row, set only where
  \<open>deletedAt\<close> is still null.
\<close>

definition mark_row :: "string \<Rightarrow> timestamp \<Rightarrow> user_secret \<Rightarrow> user_secret" where
  "mark_row i now r =
     (if secret_id r = i \<and> deletedAt r = None then r\<lparr>deletedAt := Some now\<rparr> else r)"

text \<open>
  Modelled from the spec: \<open>markDeleted(id)\<close> of the repository, one step that succeeds
  only on a row whose \<open>deletedAt\<close> is still null and returns the row as it is after the
  mark.
\<close>

definition repo_markDeleted :: "string \<Rightarrow> timestamp \<Rightarrow> db \<Rightarrow> user_secret option \<times> db" where
  "repo_markDeleted i now d =
     (case find (\<lambda>s. secret_id s = i \<and> deletedAt s = None) d of
        None \<Rightarrow> (None, d)
      | Some s \<Rightarrow> (Some (mark_row i now s), map (mark_row i now) d))"

text \<open>
  Modelled from the spec: \<open>listActive(organizationScope, offset, limit)\<close> of the
  repository. The active rows of the organization by creation time, ascending and stable;
  the window is cut from them and the count is that of all of them.
\<close>

definition repo_listActive :: "string \<Rightarrow> nat \<Rightarrow> nat \<Rightarrow> db \<Rightarrow> user_secret list \<times> nat" where
  "repo_listActive org off lim d =
     (let matching = filter (\<lambda>s. organization_id s = org \<and> deletedAt s = None) d
      in (take lim (drop off (sort_key createdAt matching)), length matching))"

text \<open>
  Modelled from the spec: \<open>getAllUserSecrets\<close> of the service, the listing in the
  organization of the actor.
\<close>

definition spec_getAllUserSecrets ::
  "list_args \<Rightarrow> db \<Rightarrow> (service_error + user_secret list \<times> nat) \<times> db" where
  "spec_getAllUserSecrets a d =
     (Inr (repo_listActive (list_args.actorOrgId a) (offset a) (limit a) d), d)"

text \<open>
  Modelled from the spec: \<open>createUserSecret\<close> of the service. The create handler hands
  over the finished row (id, normalised fields and time stamps), so what is left of the
  spec's create operation is to persist it.
\<close>

definition spec_createUserSecret :: "secret_data \<Rightarrow> db \<Rightarrow> (service_error + unit) \<times> db" where
  "spec_createUserSecret secretData d = (Inr (), repo_insert secretData d)"

text \<open>
  Modelled from the spec: \<open>updateUserSecret\<close> of the service. It fails with
  \<open>NotFoundError\<close> when no active secret has the id; otherwise it writes the present
  fields and, on a change of type, applies the normalizer again. The update handler
  hands over the id and the data and nothing of the actor, so the check cannot look at
  an organization.
\<close>

definition spec_updateUserSecret ::
  "string \<Rightarrow> update_data \<Rightarrow> db \<Rightarrow> (service_error + unit) \<times> db" where
  "spec_updateUserSecret i updateData d =
     (case find (\<lambda>s. secret_id s = i \<and> deletedAt s = None) d of
        None \<Rightarrow> (Inl NotFoundError, d)
      | Some _ \<Rightarrow> (Inr (), repo_updatePartial i (update_row updateData) d))"

text \<open>
  Modelled from the spec: \<open>deleteUserSecretById\<close> of the service. It looks the secret
  up in the organization of the actor and answers null when it is absent or already
  deleted; otherwise it marks the row and answers the row as it is after the mark.
\<close>

definition spec_deleteUserSecretById ::
  "delete_args \<Rightarrow> timestamp \<Rightarrow> db \<Rightarrow> (service_error + user_secret option) \<times> db" where
  "spec_deleteUserSecretById a now d =
     (case repo_findById (secretId a) (delete_args.actorOrgId a) d of
        None \<Rightarrow> (Inr None, d)
      | Some s \<Rightarrow>
          if deletedAt s \<noteq> None then (Inr None, d)
          else (case repo_markDeleted (secretId a) now d of (r, d') \<Rightarrow> (Inr r, d')))"

text \<open>Modelled from the spec: the service object, its four operations together.\<close>

definition spec_service :: user_secrets_service where
  "spec_service =
     \<lparr>getAllUserSecrets = spec_getAllUserSecrets,
      createUserSecret = spec_createUserSecret,
      updateUserSecret = spec_updateUserSecret,
      deleteUserSecretById = spec_deleteUserSecretById\<rparr>"

section \<open>Sample data\<close>

text \<open>
  Two actors of two organizations, a stored web login of the first organization, and
  the bodies used to run the routes on concrete requests.
\<close>

definition alice :: permission where
  "alice = \<lparr>ptype = ''user'', pid = ''alice'', authMethod = ''email'', orgId = ''org1''\<rparr>"

definition mallory :: permission where
  "mallory = \<lparr>ptype = ''user'', pid = ''mallory'', authMethod = ''email'', orgId = ''org2''\<rparr>"

definition mk_request :: "permission \<Rightarrow> string \<Rightarrow> 'b \<Rightarrow> 'b request" where
  "mk_request p i b =
     \<lparr>permission = p, param = i, query_offset = 0, query_limit = 25, body = b\<rparr>"

definition login_secret :: user_secret where
  "login_secret =
     \<lparr>secret_id = ''s1'', user_id = ''alice'', organization_id = ''org1'',
      secret_data.type = WEB_LOGIN,
      secret_data.username = Some ''a'', secret_data.password = Some ''b'',
      secret_data.card_number = None, secret_data.expiry_date = None,
      secret_data.cvv = None, secret_data.title = None, secret_data.content = None,
      createdAt = 1, secret_data.updatedAt = 1, deletedAt = None\<rparr>"

definition note_secret :: user_secret where
  "note_secret =
     \<lparr>secret_id = ''123e4567-e89b-42d3-a456-426614174000'', user_id = ''alice'',
      organization_id = ''org1'', secret_data.type = SECURE_NOTE,
      secret_data.username = None, secret_data.password = None,
      secret_data.card_number = None, secret_data.expiry_date = None,
      secret_data.cvv = None, secret_data.title = Some ''pin'',
      secret_data.content = Some ''1234'',
      createdAt = 2, secret_data.updatedAt = 2, deletedAt = None\<rparr>"


definition card_body :: "credential_type request_body" where
  "card_body =
     \<lparr>credentialType = CREDIT_CARD,
      request_body.username = Some ''bob'', request_body.password = None,
      cardNumber = Some ''4111111111111111'', expiryDate = Some ''2030-01-01'',
      request_body.cvv = Some ''123'', request_body.title = None,
      request_body.content = Some [], organizationId = ''org1'', userId = ''alice''\<rparr>"

definition password_only :: "credential_type option request_body" where
  "password_only =
     \<lparr>credentialType = None,
      request_body.username = None, request_body.password = Some ''c'',
      cardNumber = None, expiryDate = None, request_body.cvv = None,
      request_body.title = None, request_body.content = None,
      organizationId = ''org1'', userId = ''alice''\<rparr>"

definition password_only_json :: "string \<Rightarrow> string \<Rightarrow> json" where
  "password_only_json org usr =
     JObject [(''password'', JString ''c''), (''organizationId'', JString org),
              (''userId'', JString usr)]"

section \<open>Properties of the validation middleware\<close>

text \<open>
  C10. The middleware calls \<open>next()\<close> without an error exactly when the validation
  result was computed and reports no errors; a result with errors is passed on as a
  \<open>ValidationError\<close>, and a throwing \<open>validationResult\<close> is passed on as an
  \<open>UnauthorizedRequestError\<close>, not as a validation error.
\<close>

theorem validate_next_argument:
  "(validate vr = None \<longleftrightarrow> (\<exists>errors. vr = Returned errors \<and> isEmpty errors)) \<and>
   (\<forall>errors. vr = Returned errors \<and> \<not> isEmpty errors \<longrightarrow>
        (\<exists>m. validate vr = Some (ValidationError m))) \<and>
   (vr = Threw \<longrightarrow>
        (\<exists>m. validate vr = Some (UnauthorizedRequestError m)) \<and>
        (\<forall>m. validate vr \<noteq> Some (ValidationError m)))"
  by (cases vr) (auto simp: validate_def)

theorem validate_next_argument_witness:
  "validate (Returned \<lparr>isEmpty = True, array = ''f''\<rparr>) = None \<and>
   (\<exists>m. validate (Returned \<lparr>isEmpty = False, array = ''f''\<rparr>) = Some (ValidationError m)) \<and>
   (\<exists>m. validate (Threw :: validation_result js_outcome) = Some (UnauthorizedRequestError m))"
  using validate_next_argument [of "Returned \<lparr>isEmpty = True, array = ''f''\<rparr>"]
        validate_next_argument [of "Returned \<lparr>isEmpty = False, array = ''f''\<rparr>"]
        validate_next_argument [of "Threw :: validation_result js_outcome"]
  by simp


section \<open>Properties of the body schemas\<close>

lemma z_string_optional_ok:
  "z_string_optional v \<noteq> None \<longleftrightarrow> v = None \<or> (\<exists>s. v = Some (JString s))"
  by (auto simp: z_string_optional_def split: option.splits json.splits)

lemma z_string_ok: "z_string v \<noteq> None \<longleftrightarrow> (\<exists>s. v = Some (JString s))"
  by (auto simp: z_string_def split: option.splits json.splits)

lemma z_credential_enum_ok:
  "z_credential_enum v \<noteq> None \<longleftrightarrow>
     v \<in> {Some (JString ''WEB_LOGIN''), Some (JString ''CREDIT_CARD''),
          Some (JString ''SECURE_NOTE'')}"
  by (auto simp: z_credential_enum_def split: option.splits json.splits)

lemma z_credential_enum_optional_ok:
  "z_credential_enum_optional v \<noteq> None \<longleftrightarrow> v = None \<or> z_credential_enum v \<noteq> None"
  by (auto simp: z_credential_enum_optional_def split: option.splits)

lemma body_schema_ok:
  "body_schema ct j \<noteq> None \<longleftrightarrow>
     is_object j \<and> ct (get_prop j ''credentialType'') \<noteq> None \<and>
     z_string_optional (get_prop j ''username'') \<noteq> None \<and>
     z_string_optional (get_prop j ''password'') \<noteq> None \<and>
     z_string_optional (get_prop j ''cardNumber'') \<noteq> None \<and>
     z_string_optional (get_prop j ''expiryDate'') \<noteq> None \<and>
     z_string_optional (get_prop j ''cvv'') \<noteq> None \<and>
     z_string_optional (get_prop j ''title'') \<noteq> None \<and>
     z_string_optional (get_prop j ''content'') \<noteq> None \<and>
     z_string (get_prop j ''organizationId'') \<noteq> None \<and>
     z_string (get_prop j ''userId'') \<noteq> None"
  unfolding body_schema_def
  by (simp split: Option.bind_splits)

lemma body_schema_tag:
  "ct (get_prop j ''credentialType'') = None \<Longrightarrow> body_schema ct j = None"
  by (simp add: body_schema_def)

text \<open>
  C6. A create request whose \<open>credentialType\<close> is not one of the strings
  \<open>WEB_LOGIN\<close>, \<open>CREDIT_CARD\<close>, \<open>SECURE_NOTE\<close> (or is missing) fails with the
  validation error, which has status 400; the handler is not run, whatever the service
  is, and the database is as it was.
\<close>

theorem create_rejects_unknown_credential_type:
  assumes "get_prop (body req) ''credentialType'' \<notin>
             {Some (JString ''WEB_LOGIN''), Some (JString ''CREDIT_CARD''),
              Some (JString ''SECURE_NOTE'')}"
  shows "post_create_route svc uuid now_c now_u req d = (Inl RequestValidationError, d) \<and>
         http_status (fst (post_create_route svc uuid now_c now_u req d)) = 400"
proof -
  from assms have "z_credential_enum (get_prop (body req) ''credentialType'') = None"
    using z_credential_enum_ok by blast
  then have "create_body_schema (body req) = None"
    by (simp add: create_body_schema_def body_schema_tag)
  then have "post_create_route svc uuid now_c now_u req d = (Inl RequestValidationError, d)"
    by (simp add: post_create_route_def)
  then show ?thesis by (simp add: http_status_def)
qed

theorem create_rejects_unknown_credential_type_witness:
  "post_create_route spec_service ''s2'' 5 5
     (mk_request alice []
        (JObject [(''credentialType'', JString ''API_KEY''),
                  (''organizationId'', JString ''org1''), (''userId'', JString ''alice'')]))
     [login_secret]
   = (Inl RequestValidationError, [login_secret])"
  using create_rejects_unknown_credential_type
          [of "mk_request alice []
                 (JObject [(''credentialType'', JString ''API_KEY''),
                           (''organizationId'', JString ''org1''),
                           (''userId'', JString ''alice'')])"
              spec_service "''s2''" 5 5 "[login_secret]"]
  by (simp add: mk_request_def)

text \<open>
  C8, as the schema has it. The body of an update must be an object in which
  \<open>credentialType\<close> is absent or one of the three tags, each of the seven payload keys
  is absent or a string, and \<open>organizationId\<close> and \<open>userId\<close> are both present as
  strings: the two ids are required, every other key is optional.
\<close>

theorem update_body_required_keys:
  "update_body_schema j \<noteq> None \<longleftrightarrow>
     is_object j \<and>
     (get_prop j ''credentialType'' = None \<or>
      get_prop j ''credentialType'' \<in>
        {Some (JString ''WEB_LOGIN''), Some (JString ''CREDIT_CARD''),
         Some (JString ''SECURE_NOTE'')}) \<and>
     (\<forall>k \<in> {''username'', ''password'', ''cardNumber'', ''expiryDate'', ''cvv'', ''title'',
              ''content''}.
        get_prop j k = None \<or> (\<exists>s. get_prop j k = Some (JString s))) \<and>
     (\<exists>s. get_prop j ''organizationId'' = Some (JString s)) \<and>
     (\<exists>s. get_prop j ''userId'' = Some (JString s))"
  unfolding update_body_schema_def body_schema_ok z_credential_enum_optional_ok
    z_credential_enum_ok z_string_optional_ok z_string_ok
  by simp

theorem update_body_required_keys_witness:
  "update_body_schema (password_only_json ''org1'' ''alice'') \<noteq> None \<and>
   update_body_schema (JObject [(''password'', JString ''c''), (''userId'', JString ''alice'')])
     = None"
  using update_body_required_keys [of "password_only_json ''org1'' ''alice''"]
        update_body_required_keys
          [of "JObject [(''password'', JString ''c''), (''userId'', JString ''alice'')]"]
  by (simp add: is_object_def password_only_json_def)

text \<open>
  C8, as stated, fails: an update whose body has only a password, and so omits
  \<open>organizationId\<close> and \<open>userId\<close>, is refused as a shape error before the handler
  runs, although the secret exists and belongs to the actor.
\<close>

theorem update_body_without_ids_counterexample:
  "update_body_schema (JObject [(''password'', JString ''c'')]) = None \<and>
   put_update_route spec_service 9
     (mk_request alice ''s1'' (JObject [(''password'', JString ''c'')])) [login_secret]
   = (Inl RequestValidationError, [login_secret])"
  by (simp add: put_update_route_def update_body_schema_def body_schema_def mk_request_def
      is_object_def z_string_def z_string_optional_def z_credential_enum_optional_def)


section \<open>Properties of the create handler\<close>








text \<open>
  C7, on the code. Whatever the service does, the reply of a successful create is the
  message alone: the object sent has no \<open>secretId\<close> key, so the generated id is not
  returned to the caller.
\<close>

theorem create_reply_has_no_secret_id:
  assumes "post_create_handler svc uuid now_c now_u req d = (Inr rep, d')"
  shows "rep = created_reply \<and> status rep = 200 \<and> map_of (payload rep) ''secretId'' = None"
proof -
  from assms have "rep = created_reply"
    by (auto simp: post_create_handler_def split: prod.splits sum.splits)
  then show ?thesis by (simp add: created_reply_def)
qed

theorem create_reply_has_no_secret_id_witness:
  "post_create_handler spec_service ''s2'' 5 5 (mk_request alice [] card_body) []
     = (Inr created_reply, [stored_row (newSecret ''s2'' 5 5 card_body)]) \<and>
   map_of (payload created_reply) ''secretId'' = None"
proof -
  have h: "post_create_handler spec_service ''s2'' 5 5 (mk_request alice [] card_body) []
     = (Inr created_reply, [stored_row (newSecret ''s2'' 5 5 card_body)])"
    by (simp add: post_create_handler_def spec_service_def spec_createUserSecret_def
        repo_insert_def mk_request_def)
  from create_reply_has_no_secret_id [OF h] h show ?thesis by simp
qed


section \<open>Properties of the update path\<close>














text \<open>
  C1, on the code. The update handler reads nothing of the actor: for every service,
  the outcome of an update and the database it leaves are the same whichever actor context
  the request carries, in the handler and in the route. So an update that succeeds for an
  actor of the owning organization succeeds, with the same effect, for an actor of any
  other organization.
\<close>

theorem update_ignores_actor:
  "put_update_handler svc now (req\<lparr>permission := p\<rparr>) d = put_update_handler svc now req d \<and>
   put_update_route svc now (jreq\<lparr>permission := p\<rparr>) d = put_update_route svc now jreq d"
  by (simp add: put_update_handler_def put_update_route_def with_body_def Let_def
      split: option.splits)

theorem update_ignores_actor_witness:
  "put_update_handler spec_service 9 (mk_request mallory ''s1'' password_only) [login_secret]
     = put_update_handler spec_service 9 (mk_request alice ''s1'' password_only) [login_secret]"
  using update_ignores_actor
          [where svc = spec_service and now = 9 and p = mallory and d = "[login_secret]"
             and req = "mk_request alice ''s1'' password_only"]
  by (simp add: mk_request_def)

text \<open>
  C5, at a request of an actor of another organization. The secret \<open>s1\<close> belongs to
  \<open>org1\<close>; the actor of \<open>org2\<close> updates it through the route and gets the reply of
  a success, status 200 and not 404, and the password of the secret is rewritten. The
  delete handler, which hands the actor to the service, answers the same actor with 404
  and leaves the secret alone.
\<close>

theorem update_of_foreign_secret_succeeds:
  "organization_id login_secret \<noteq> permission.orgId mallory \<and>
   put_update_route spec_service 9
     (mk_request mallory ''s1'' (password_only_json ''org2'' ''mallory'')) [login_secret]
     = (Inr (updated_reply ''s1''),
        [login_secret\<lparr>secret_data.password := Some ''c'', secret_data.updatedAt := 9\<rparr>]) \<and>
   http_status (Inr (updated_reply ''s1'')) = 200 \<and>
   delete_handler spec_service 9
     (mk_request mallory ''s1'' (password_only_json ''org2'' ''mallory'')) [login_secret]
     = (Inr not_found_reply, [login_secret])"
  by (simp add: put_update_route_def update_body_schema_def body_schema_def mk_request_def
      is_object_def z_string_def z_string_optional_def z_credential_enum_optional_def
      password_only_json_def with_body_def put_update_handler_def spec_service_def
      spec_updateUserSecret_def login_secret_def repo_updatePartial_def write_fields_def
      update_row_def update_data_of_def date_or_def updated_reply_def mallory_def
      http_status_def
      delete_handler_def delete_args_of_def spec_deleteUserSecretById_def repo_findById_def
      Let_def)

section \<open>Properties of the delete path\<close>


lemma find_active_None:
  "find (\<lambda>s. secret_id s = i \<and> deletedAt s = None) d = None \<longleftrightarrow>
     (\<forall>r \<in> set d. secret_id r = i \<longrightarrow> deletedAt r \<noteq> None)"
  by (induction d) simp_all

lemma find_active_Some:
  "find (\<lambda>s. secret_id s = i \<and> deletedAt s = None) d = Some s0 \<Longrightarrow>
     s0 \<in> set d \<and> secret_id s0 = i \<and> deletedAt s0 = None"
  by (induction d) (simp_all split: if_splits)

lemma repo_findById_Some:
  "repo_findById i org d = Some s \<Longrightarrow>
     s \<in> set d \<and> secret_id s = i \<and> organization_id s = org"
  unfolding repo_findById_def by (induction d) (simp_all split: if_splits)

lemma mark_row_inactive:
  "secret_id (mark_row i now r) = i \<Longrightarrow> deletedAt (mark_row i now r) \<noteq> None"
  by (simp add: mark_row_def split: if_splits)

lemma mark_row_active: 
  "secret_id r = i \<Longrightarrow> deletedAt r = None \<Longrightarrow> 
   deletedAt (mark_row i now r) = Some now \<and> secret_id (mark_row i now r) = i"
  by (simp add: mark_row_def)

lemma marked_rows_inactive:
  assumes "r \<in> set (map (mark_row i now) d)" "secret_id r = i"
  shows "deletedAt r \<noteq> None"
proof -
  from assms(1) obtain r0 where "r = mark_row i now r0" by (metis imageE list.set_map)
  with assms(2) show ?thesis using mark_row_inactive by metis
qed


lemma repo_markDeleted_some:
  assumes "s \<in> set d" "secret_id s = i" "deletedAt s = None"
  shows "\<exists>s0. repo_markDeleted i now d = (Some (mark_row i now s0), map (mark_row i now) d) \<and>
           s0 \<in> set d \<and> secret_id s0 = i \<and> deletedAt s0 = None"
proof (cases "find (\<lambda>s. secret_id s = i \<and> deletedAt s = None) d")
  case None
  then have "\<forall>r \<in> set d. secret_id r = i \<longrightarrow> deletedAt r \<noteq> None"
    by (simp only: find_active_None)
  with assms(1) have "secret_id s = i \<longrightarrow> deletedAt s \<noteq> None" by (rule bspec [rotated])
  with assms(2,3) show ?thesis by simp
next
  case (Some s0)
  have "repo_markDeleted i now d = (Some (mark_row i now s0), map (mark_row i now) d)"
    by (simp add: repo_markDeleted_def Some)
  with find_active_Some [OF Some] show ?thesis by (intro exI [of _ s0]) simp
qed

lemma spec_delete_some:
  fixes a :: delete_args
  assumes "repo_findById (secretId a) (delete_args.actorOrgId a) d = Some s" "deletedAt s = None"
  shows "\<exists>s0. spec_deleteUserSecretById a now d =
            (Inr (Some (mark_row (secretId a) now s0)), map (mark_row (secretId a) now) d) \<and>
           s0 \<in> set d \<and> secret_id s0 = secretId a \<and> deletedAt s0 = None"
proof -
  from repo_findById_Some [OF assms(1)] have "s \<in> set d" "secret_id s = secretId a" by simp_all
  from repo_markDeleted_some [OF this assms(2), of now] obtain s0 where
    m: "repo_markDeleted (secretId a) now d =
          (Some (mark_row (secretId a) now s0), map (mark_row (secretId a) now) d)"
    and s0: "s0 \<in> set d \<and> secret_id s0 = secretId a \<and> deletedAt s0 = None"
    by (elim exE conjE) simp
  have "spec_deleteUserSecretById a now d =
          (Inr (Some (mark_row (secretId a) now s0)), map (mark_row (secretId a) now) d)"
    by (simp add: spec_deleteUserSecretById_def assms m)
  with s0 show ?thesis by (intro exI [of _ s0]) simp
qed

lemma spec_delete_none:
  fixes a :: delete_args
  assumes "repo_findById (secretId a) (delete_args.actorOrgId a) d = None \<or>
           (\<exists>s. repo_findById (secretId a) (delete_args.actorOrgId a) d = Some s \<and>
                deletedAt s \<noteq> None)"
  shows "spec_deleteUserSecretById a now d = (Inr None, d)"
  using assms
proof
  assume "repo_findById (secretId a) (delete_args.actorOrgId a) d = None"
  then show ?thesis by (simp add: spec_deleteUserSecretById_def)
next
  assume "\<exists>s. repo_findById (secretId a) (delete_args.actorOrgId a) d = Some s \<and>
                deletedAt s \<noteq> None"
  then obtain s where "repo_findById (secretId a) (delete_args.actorOrgId a) d = Some s"
    "deletedAt s \<noteq> None" by (elim exE conjE)
  then show ?thesis by (simp add: spec_deleteUserSecretById_def)
qed

lemma lookup_after_mark:
  "repo_findById i org (map (mark_row i now) d) = None \<or>
   (\<exists>s. repo_findById i org (map (mark_row i now) d) = Some s \<and> deletedAt s \<noteq> None)"
proof (cases "repo_findById i org (map (mark_row i now) d)")
  case None
  then show ?thesis by simp
next
  case (Some s)
  from repo_findById_Some [OF Some]
  have "s \<in> set (map (mark_row i now) d)" "secret_id s = i" by simp_all
  then have "deletedAt s \<noteq> None" by (rule marked_rows_inactive)
  with Some show ?thesis by simp
qed


lemma delete_handler_none:
  "spec_deleteUserSecretById (delete_args_of req) now d = (Inr None, d') \<Longrightarrow>
     delete_handler spec_service now req d = (Inr not_found_reply, d')"
  by (simp add: delete_handler_def spec_service_def)

lemma delete_handler_some:
  "spec_deleteUserSecretById (delete_args_of req) now d = (Inr (Some s), d') \<Longrightarrow>
     delete_handler spec_service now req d = (Inr (deleted_reply s), d')"
  by (simp add: delete_handler_def spec_service_def)

lemma delete_args_of_sel:
  "secretId (delete_args_of req) = param req"
  "delete_args.actorOrgId (delete_args_of req) = permission.orgId (permission req)"
  by (simp_all add: delete_args_of_def)

lemma deleted_reply_not_404: "deleted_reply s \<noteq> not_found_reply"
  by (simp add: deleted_reply_def not_found_reply_def)

lemma delete_handler_active:
  assumes "repo_findById (param req) (permission.orgId (permission req)) d = Some s"
    "deletedAt s = None"
  shows "\<exists>s0. delete_handler spec_service now req d =
            (Inr (deleted_reply (mark_row (param req) now s0)), map (mark_row (param req) now) d) \<and>
           s0 \<in> set d \<and> secret_id s0 = param req \<and> deletedAt s0 = None"
proof -
  from assms have "repo_findById (secretId (delete_args_of req))
      (delete_args.actorOrgId (delete_args_of req)) d = Some s"
    by (simp add: delete_args_of_sel)
  from spec_delete_some [OF this assms(2), of now] obtain s0 where
    "spec_deleteUserSecretById (delete_args_of req) now d =
       (Inr (Some (mark_row (param req) now s0)), map (mark_row (param req) now) d)"
    and s0: "s0 \<in> set d \<and> secret_id s0 = param req \<and> deletedAt s0 = None"
    unfolding delete_args_of_sel by (elim exE conjE) simp
  from delete_handler_some [OF this(1)] s0 show ?thesis by (intro exI [of _ s0]) simp
qed

lemma delete_handler_inactive:
  assumes "repo_findById (param req) (permission.orgId (permission req)) d = None \<or>
           (\<exists>s. repo_findById (param req) (permission.orgId (permission req)) d = Some s \<and>
                deletedAt s \<noteq> None)"
  shows "delete_handler spec_service now req d = (Inr not_found_reply, d)"
proof -
  from assms have "repo_findById (secretId (delete_args_of req))
        (delete_args.actorOrgId (delete_args_of req)) d = None \<or>
      (\<exists>s. repo_findById (secretId (delete_args_of req))
              (delete_args.actorOrgId (delete_args_of req)) d = Some s \<and> deletedAt s \<noteq> None)"
    by (simp only: delete_args_of_sel)
  from delete_handler_none [OF spec_delete_none [OF this]] show ?thesis .
qed

lemma lookup_cases:
  "(\<exists>s. repo_findById i org d = Some s \<and> deletedAt s = None) \<or>
   (repo_findById i org d = None \<or> (\<exists>s. repo_findById i org d = Some s \<and> deletedAt s \<noteq> None))"
proof (cases "repo_findById i org d")
  case None
  then show ?thesis by simp
next
  case (Some s)
  then show ?thesis by (cases "deletedAt s") simp_all
qed


lemma map_mark_row:
  "map (mark_row i now) d =
     map (\<lambda>r. if secret_id r = i \<and> deletedAt r = None then r\<lparr>deletedAt := Some now\<rparr> else r) d"
  by (simp add: mark_row_def [abs_def])

lemma same_id_same_row:
  assumes "distinct (map secret_id d)" "x \<in> set d" "y \<in> set d" "secret_id x = secret_id y"
  shows "x = y"
proof -
  from assms(1) have inj: "inj_on secret_id (set d)" by (simp only: distinct_map)
  show ?thesis by (rule inj_onD [OF inj assms(4) assms(2) assms(3)])
qed

lemma delete_handler_active_scoped:
  assumes "repo_findById (param req) (permission.orgId (permission req)) d = Some s"
    "deletedAt s = None"
  shows "\<exists>s0. delete_handler spec_service now req d =
            (Inr (deleted_reply (mark_row (param req) now s0)), map (mark_row (param req) now) d) \<and>
           s0 \<in> set d \<and> secret_id s0 = param req \<and> deletedAt s0 = None \<and>
           (distinct (map secret_id d) \<longrightarrow>
              organization_id s0 = permission.orgId (permission req))"
proof -
  from delete_handler_active [OF assms, of now] obtain s0 where
    h: "delete_handler spec_service now req d =
          (Inr (deleted_reply (mark_row (param req) now s0)), map (mark_row (param req) now) d)"
    and s0: "s0 \<in> set d" "secret_id s0 = param req" "deletedAt s0 = None"
    by (elim exE conjE)
  from repo_findById_Some [OF assms(1)] have s: "s \<in> set d" "secret_id s = param req"
    "organization_id s = permission.orgId (permission req)" by simp_all
  have "distinct (map secret_id d) \<longrightarrow> organization_id s0 = permission.orgId (permission req)"
  proof
    assume dist: "distinct (map secret_id d)"
    from s0(2) s(2) have "secret_id s0 = secret_id s" by simp
    from same_id_same_row [OF dist s0(1) s(1) this] s(3) show
      "organization_id s0 = permission.orgId (permission req)" by simp
  qed
  with h s0 show ?thesis by (intro exI [of _ s0]) simp
qed

text \<open>
  C4. For a well-formed id, a delete through the route either succeeds or replies 404
  and changes nothing. On success the reply is 200 and carries, under
  \<open>deletedSecret\<close>, an active row of that id as it is after the mark, with
  \<open>deletedAt\<close> the time of the call (where ids are unique it is the row of the actor's
  organization), and the database is the old one with exactly the active rows of that id
  marked. The reply is 404 exactly when the lookup in the organization of the actor
  finds no row or a row already deleted. Deleting again, at any later time, replies 404
  and changes nothing, so a non-null entity is returned at most once; after a success
  this holds for every request naming that id.
\<close>

theorem soft_delete_once:
  assumes first: "delete_route spec_service now req d = (r1, d1)"
    and wf: "z_uuid (param req)"
  shows
    "((\<exists>s0. s0 \<in> set d \<and> secret_id s0 = param req \<and> deletedAt s0 = None \<and>
        (distinct (map secret_id d) \<longrightarrow>
           organization_id s0 = permission.orgId (permission req)) \<and>
        r1 = Inr \<lparr>status = 200,
            payload = [(''message'', RString ''Secret soft deleted successfully''),
                       (''deletedSecret'', RSecret (s0\<lparr>deletedAt := Some now\<rparr>))]\<rparr> \<and>
        d1 = map (\<lambda>r. if secret_id r = param req \<and> deletedAt r = None
                       then r\<lparr>deletedAt := Some now\<rparr> else r) d) \<or>
      (r1 = Inr \<lparr>status = 404, payload = [(''message'', RString ''Secret not found'')]\<rparr> \<and>
       d1 = d)) \<and>
     (r1 = Inr \<lparr>status = 404, payload = [(''message'', RString ''Secret not found'')]\<rparr> \<longleftrightarrow>
        (find (\<lambda>s. secret_id s = param req \<and>
                    organization_id s = permission.orgId (permission req)) d = None \<or>
         (\<exists>s. find (\<lambda>s. secret_id s = param req \<and>
                         organization_id s = permission.orgId (permission req)) d = Some s \<and>
              deletedAt s \<noteq> None))) \<and>
     delete_route spec_service now' req d1 =
       (Inr \<lparr>status = 404, payload = [(''message'', RString ''Secret not found'')]\<rparr>, d1) \<and>
     (r1 \<noteq> Inr \<lparr>status = 404, payload = [(''message'', RString ''Secret not found'')]\<rparr> \<longrightarrow>
      param req2 = param req \<longrightarrow>
        delete_route spec_service now' req2 d1 =
          (Inr \<lparr>status = 404, payload = [(''message'', RString ''Secret not found'')]\<rparr>, d1))"
proof -
  let ?i = "param req" and ?org = "permission.orgId (permission req)"
  let ?nf = "\<lparr>status = 404, payload = [(''message'', RString ''Secret not found'')]\<rparr>"
  let ?gone = "repo_findById ?i ?org d = None \<or>
               (\<exists>s. repo_findById ?i ?org d = Some s \<and> deletedAt s \<noteq> None)"
  from first wf have first': "delete_handler spec_service now req d = (r1, d1)"
    by (simp add: delete_route_def)
  have route: "\<And>dd. delete_route spec_service now' req dd =
                     delete_handler spec_service now' req dd"
    using wf by (simp add: delete_route_def)
  have nf: "not_found_reply = ?nf" by (simp add: not_found_reply_def)
  from lookup_cases [of ?i ?org d] show ?thesis
  proof
    assume "\<exists>s. repo_findById ?i ?org d = Some s \<and> deletedAt s = None"
    then obtain s where s: "repo_findById ?i ?org d = Some s" "deletedAt s = None"
      by (elim exE conjE)
    from delete_handler_active_scoped [OF s, of now] obtain s0 where
      h: "delete_handler spec_service now req d =
            (Inr (deleted_reply (mark_row ?i now s0)), map (mark_row ?i now) d)" and
      s0: "s0 \<in> set d" "secret_id s0 = ?i" "deletedAt s0 = None" and
      org: "distinct (map secret_id d) \<longrightarrow> organization_id s0 = ?org"
      by (elim exE conjE)
    from h first' have r1: "r1 = Inr (deleted_reply (mark_row ?i now s0))"
      and d1: "d1 = map (mark_row ?i now) d" by simp_all
    have snap: "mark_row ?i now s0 = s0\<lparr>deletedAt := Some now\<rparr>"
      using s0(2,3) by (simp add: mark_row_def)
    have r1': "r1 = Inr \<lparr>status = 200,
            payload = [(''message'', RString ''Secret soft deleted successfully''),
                       (''deletedSecret'', RSecret (s0\<lparr>deletedAt := Some now\<rparr>))]\<rparr>"
      unfolding r1 snap by (simp add: deleted_reply_def)
    have d1': "d1 = map (\<lambda>r. if secret_id r = ?i \<and> deletedAt r = None
                       then r\<lparr>deletedAt := Some now\<rparr> else r) d"
      unfolding d1 by (rule map_mark_row)
    have not_nf: "r1 \<noteq> Inr ?nf" unfolding r1' by simp
    have not_gone: "\<not> ?gone" using s by simp
    have again: "delete_route spec_service now' req d1 = (Inr ?nf, d1)"
      unfolding route d1 nf [symmetric]
      by (rule delete_handler_inactive) (rule lookup_after_mark)
    have other: "param req2 = ?i \<longrightarrow> delete_route spec_service now' req2 d1 = (Inr ?nf, d1)"
    proof
      assume p: "param req2 = ?i"
      have "repo_findById (param req2) (permission.orgId (permission req2))
               (map (mark_row (param req2) now) d) = None \<or>
            (\<exists>s. repo_findById (param req2) (permission.orgId (permission req2))
                    (map (mark_row (param req2) now) d) = Some s \<and> deletedAt s \<noteq> None)"
        by (rule lookup_after_mark)
      from delete_handler_inactive [OF this, of now'] wf
      show "delete_route spec_service now' req2 d1 = (Inr ?nf, d1)"
        by (simp add: d1 p delete_route_def nf)
    qed
    have left: "\<exists>s0. s0 \<in> set d \<and> secret_id s0 = ?i \<and> deletedAt s0 = None \<and>
        (distinct (map secret_id d) \<longrightarrow> organization_id s0 = ?org) \<and>
        r1 = Inr \<lparr>status = 200,
            payload = [(''message'', RString ''Secret soft deleted successfully''),
                       (''deletedSecret'', RSecret (s0\<lparr>deletedAt := Some now\<rparr>))]\<rparr> \<and>
        d1 = map (\<lambda>r. if secret_id r = ?i \<and> deletedAt r = None
                       then r\<lparr>deletedAt := Some now\<rparr> else r) d"
      using s0 org r1' d1' by (intro exI [of _ s0]) simp
    have iff: "(r1 = Inr ?nf) = ?gone" using not_nf not_gone by simp
    from left iff again other not_nf show ?thesis
      unfolding repo_findById_def by simp
  next
    assume gone: ?gone
    from delete_handler_inactive [OF gone, of now] first'
    have r1: "r1 = Inr ?nf" and d1: "d1 = d" by (simp_all add: nf)
    have again: "delete_route spec_service now' req d1 = (Inr ?nf, d1)"
      unfolding route d1 nf [symmetric] by (rule delete_handler_inactive [OF gone])
    from r1 d1 gone again show ?thesis unfolding repo_findById_def by simp
  qed
qed

theorem soft_delete_once_witness:
  "z_uuid ''123e4567-e89b-42d3-a456-426614174000'' \<and>
   delete_route spec_service 9 (mk_request alice ''123e4567-e89b-42d3-a456-426614174000'' ())
       [login_secret, note_secret]
     = (Inr \<lparr>status = 200,
            payload = [(''message'', RString ''Secret soft deleted successfully''),
                       (''deletedSecret'', RSecret (note_secret\<lparr>deletedAt := Some 9\<rparr>))]\<rparr>,
        [login_secret, note_secret\<lparr>deletedAt := Some 9\<rparr>]) \<and>
   delete_route spec_service 10 (mk_request alice ''123e4567-e89b-42d3-a456-426614174000'' ())
       [login_secret, note_secret\<lparr>deletedAt := Some 9\<rparr>]
     = (Inr \<lparr>status = 404, payload = [(''message'', RString ''Secret not found'')]\<rparr>,
        [login_secret, note_secret\<lparr>deletedAt := Some 9\<rparr>])"
proof -
  have wf: "z_uuid (param (mk_request alice ''123e4567-e89b-42d3-a456-426614174000'' ()))"
    by (simp add: mk_request_def z_uuid_def is_hex_def)
  have h: "delete_route spec_service 9 (mk_request alice ''123e4567-e89b-42d3-a456-426614174000'' ())
       [login_secret, note_secret]
     = (Inr \<lparr>status = 200,
            payload = [(''message'', RString ''Secret soft deleted successfully''),
                       (''deletedSecret'', RSecret (note_secret\<lparr>deletedAt := Some 9\<rparr>))]\<rparr>,
        [login_secret, note_secret\<lparr>deletedAt := Some 9\<rparr>])"
    by (simp add: delete_route_def z_uuid_def is_hex_def delete_handler_def delete_args_of_def
        spec_service_def spec_deleteUserSecretById_def repo_findById_def repo_markDeleted_def
        mark_row_def deleted_reply_def mk_request_def alice_def login_secret_def
        note_secret_def)
  from soft_delete_once [OF h wf, of 10, THEN conjunct2, THEN conjunct2, THEN conjunct1] h wf
  show ?thesis by (simp add: mk_request_def)
qed

end
